theory Spec2Isabelle
  imports Complex_Main "HOL-Library.Word"
begin

section \<open>AdaptiveTXWSN: adaptive transmission period from the battery voltage\<close>

text \<open>
  The class \<^verbatim>\<open>AdaptiveTXWSN\<close> of \<^verbatim>\<open>src/AdaptiveTXWSN.h\<close> is embedded with explicit
  state passing: every method takes the object (a record of its private fields) and
  returns the updated object.

  \<^item> \<^verbatim>\<open>uint32_t\<close> is \<open>32 word\<close>, \<^verbatim>\<open>uint8_t\<close> and \<^verbatim>\<open>int8_t\<close> are \<open>8 word\<close>
    (read with \<open>unat\<close> and \<open>sint\<close>): \<open>+\<close> and \<open>-\<close> wrap around as in the code.
  \<^item> \<^verbatim>\<open>enum Level : uint8_t\<close> is kept as its underlying byte with the three named
    constants: the class has no constructor, so before \<^verbatim>\<open>begin()\<close> the field may hold
    any byte, and the \<^verbatim>\<open>switch\<close> statements say what happens then.
  \<^item> A finite \<^verbatim>\<open>float\<close> is the real number it denotes, and \<^verbatim>\<open><\<close>, \<^verbatim>\<open>>=\<close> on finite
    floats are the comparisons of these reals. The result of a float operation is
    rounded in a way that depends on the platform, so the operations are a parameter
    of the model (record \<open>Aritmetica\<close>); \<open>exacta\<close> is the instance without rounding,
    \<open>binary32\<close> the IEEE 754 single precision of the Arduino targets. NaN and the
    infinities are outside the model.
  \<^item> The Arduino calls \<^verbatim>\<open>millis()\<close> and \<^verbatim>\<open>analogRead()\<close> read the record \<open>Entorno\<close>;
    a method that may sample the ADC also returns how many times it called
    \<^verbatim>\<open>analogRead()\<close>.
\<close>

subsection \<open>Data\<close>

type_synonym u8 = "8 word"
type_synonym u32 = "32 word"

record Cfg =
  pinAdcBateria :: u8
  voltajeReferenciaAdc :: real
  divisorRArriba_k :: real
  divisorRAbajo_k :: real
  muestrasPromedioAdc :: u8
  umbralAlto_V :: real
  umbralMedio_V :: real
  fraccionHisteresis :: real
  periodoAlto_ms :: u32
  periodoMedio_ms :: u32
  periodoBajo_ms :: u32
  corteVoltaje_V :: real

type_synonym Level = u8

definition BATT_LOW :: Level where "BATT_LOW = 0"
definition BATT_MID :: Level where "BATT_MID = 1"
definition BATT_HIGH :: Level where "BATT_HIGH = 2"

record AdaptiveTXWSN =
  configuracion :: Cfg
  nivelEnergeticoActual :: Level
  msProximoEnvio :: u32
  ultimoVoltajeMedido_V :: real
  bloqueadoPorCorte :: bool
  usarLecturaInyectada :: bool
  voltajeInyectado_V :: real

text \<open>
  The float operations the code uses: \<^verbatim>\<open>+ - * /\<close> and the conversion
  \<^verbatim>\<open>(float)acumuladorAdc\<close> of a \<^verbatim>\<open>uint32_t\<close>.
\<close>

record Aritmetica =
  fadd :: "real \<Rightarrow> real \<Rightarrow> real"
  fsub :: "real \<Rightarrow> real \<Rightarrow> real"
  fmul :: "real \<Rightarrow> real \<Rightarrow> real"
  fdiv :: "real \<Rightarrow> real \<Rightarrow> real"
  fconv :: "u32 \<Rightarrow> real"

definition exacta :: Aritmetica where
  "exacta = \<lparr>fadd = (+), fsub = (-), fmul = (*), fdiv = (/), fconv = (\<lambda>w. real (unat w))\<rparr>"

text \<open>
  IEEE 754 binary32 with rounding to nearest, ties to even. \<open>exponente n x\<close> is the
  binary exponent of \<open>x > 0\<close>, found in at most \<open>n\<close> halvings or doublings; a result
  has 24 significant bits above the exponent \<open>-126\<close> and is a multiple of \<open>2^-149\<close>
  below. An overflow or a division by zero gives an infinity or a NaN in the code and
  is outside the model.
\<close>

definition redondeoPar :: "real \<Rightarrow> int" where
  "redondeoPar x =
     (let n = \<lfloor>x\<rfloor>; r = x - of_int n
      in if r < 1 / 2 then n else if 1 / 2 < r then n + 1 else if even n then n else n + 1)"

primrec exponente :: "nat \<Rightarrow> real \<Rightarrow> int" where
  "exponente 0 x = 0"
| "exponente (Suc n) x =
     (if x < 1 then exponente n (2 * x) - 1
      else if 2 \<le> x then exponente n (x / 2) + 1
      else 0)"

definition redondear32 :: "real \<Rightarrow> real" where
  "redondear32 x =
     (if x = 0 then 0
      else let e = max (exponente 300 \<bar>x\<bar>) (- 126); ulp = 2 powi (e - 23)
           in of_int (redondeoPar (x / ulp)) * ulp)"

definition binary32 :: Aritmetica where
  "binary32 =
     \<lparr>fadd = (\<lambda>a b. redondear32 (a + b)), fsub = (\<lambda>a b. redondear32 (a - b)),
      fmul = (\<lambda>a b. redondear32 (a * b)), fdiv = (\<lambda>a b. redondear32 (a / b)),
      fconv = (\<lambda>w. redondear32 (real (unat w)))\<rparr>"

text \<open>
  What the hardware answers during one call: \<open>millis\<close> is the value of \<^verbatim>\<open>millis()\<close>,
  \<open>analogRead e i\<close> the value of the \<open>i\<close>-th call of \<^verbatim>\<open>analogRead()\<close> (an \<^verbatim>\<open>int\<close>).
\<close>

record Entorno =
  millis :: u32
  analogRead :: "nat \<Rightarrow> int"

subsection \<open>Operations\<close>

text \<open>\<^verbatim>\<open>begin(cfg)\<close>; the call \<^verbatim>\<open>pinMode\<close> touches no field.\<close>

definition begin_cfg :: "Cfg \<Rightarrow> Entorno \<Rightarrow> AdaptiveTXWSN \<Rightarrow> AdaptiveTXWSN" where
  "begin_cfg cfg e s =
     s\<lparr>configuracion := cfg, nivelEnergeticoActual := BATT_HIGH, msProximoEnvio := millis e\<rparr>"

text \<open>
  The sampling loop of \<^verbatim>\<open>readBatteryVolts\<close>: \<open>acumuladorAdc\<close> after \<open>n\<close> iterations,
  each adding one \<^verbatim>\<open>analogRead()\<close> to the \<^verbatim>\<open>uint32_t\<close> accumulator.
\<close>

primrec acumuladorAdc :: "(nat \<Rightarrow> int) \<Rightarrow> nat \<Rightarrow> u32" where
  "acumuladorAdc f 0 = 0"
| "acumuladorAdc f (Suc i) = acumuladorAdc f i + word_of_int (f i)"

definition readBatteryVolts :: "Aritmetica \<Rightarrow> Entorno \<Rightarrow> AdaptiveTXWSN \<Rightarrow> real \<times> nat" where
  "readBatteryVolts ar e s =
     (let c = configuracion s in
      if sint (pinAdcBateria c) < 0 then (ultimoVoltajeMedido_V s, 0)
      else
        let nMuestras = max (1 :: u8) (muestrasPromedioAdc c);
            promedioCuentasAdc =
              fdiv ar (fconv ar (acumuladorAdc (analogRead e) (unat nMuestras)))
                (real (unat nMuestras));
            voltajeAdc_V = fmul ar (fdiv ar promedioCuentasAdc 1023) (voltajeReferenciaAdc c);
            factorDivisor =
              fdiv ar (fadd ar (divisorRArriba_k c) (divisorRAbajo_k c)) (divisorRAbajo_k c)
        in (fmul ar voltajeAdc_V factorDivisor, unat nMuestras))"

definition currentPeriod :: "AdaptiveTXWSN \<Rightarrow> u32" where
  "currentPeriod s =
     (if nivelEnergeticoActual s = BATT_HIGH then periodoAlto_ms (configuracion s)
      else if nivelEnergeticoActual s = BATT_MID then periodoMedio_ms (configuracion s)
      else periodoBajo_ms (configuracion s))"

definition actualizarNivelConHisteresis ::
  "Aritmetica \<Rightarrow> real \<Rightarrow> AdaptiveTXWSN \<Rightarrow> AdaptiveTXWSN" where
  "actualizarNivelConHisteresis ar voltajeBateria_V s =
     (let c = configuracion s;
          diferencialAlto_V = fmul ar (umbralAlto_V c) (fraccionHisteresis c);
          diferencialMedio_V = fmul ar (umbralMedio_V c) (fraccionHisteresis c)
      in
        if nivelEnergeticoActual s = BATT_HIGH then
          (if voltajeBateria_V < fsub ar (umbralAlto_V c) diferencialAlto_V
           then s\<lparr>nivelEnergeticoActual := BATT_MID\<rparr> else s)
        else if nivelEnergeticoActual s = BATT_MID then
          (if fadd ar (umbralAlto_V c) diferencialAlto_V \<le> voltajeBateria_V
           then s\<lparr>nivelEnergeticoActual := BATT_HIGH\<rparr>
           else if voltajeBateria_V < fsub ar (umbralMedio_V c) diferencialMedio_V
           then s\<lparr>nivelEnergeticoActual := BATT_LOW\<rparr>
           else s)
        else if nivelEnergeticoActual s = BATT_LOW then
          (if fadd ar (umbralMedio_V c) diferencialMedio_V \<le> voltajeBateria_V
           then s\<lparr>nivelEnergeticoActual := BATT_MID\<rparr> else s)
        else s)"

text \<open>
  Step 1 of \<^verbatim>\<open>tick\<close>: the measured voltage, and the number of \<^verbatim>\<open>analogRead()\<close> calls
  made to obtain it.
\<close>

definition medir :: "Aritmetica \<Rightarrow> Entorno \<Rightarrow> AdaptiveTXWSN \<Rightarrow> real \<times> nat" where
  "medir ar e s =
     (if usarLecturaInyectada s then (voltajeInyectado_V s, 0) else readBatteryVolts ar e s)"

text \<open>The due test of the timer: \<^verbatim>\<open>(int32_t)(ahoraMs - _msProximoEnvio) >= 0\<close>.\<close>

definition vencido :: "u32 \<Rightarrow> u32 \<Rightarrow> bool" where
  "vencido ahoraMs proximo = (0 \<le> sint (ahoraMs - proximo))"

text \<open>\<open>tick\<close> returns its result, the updated object and the number of ADC samples taken.\<close>

definition tick :: "Aritmetica \<Rightarrow> Entorno \<Rightarrow> AdaptiveTXWSN \<Rightarrow> bool \<times> AdaptiveTXWSN \<times> nat" where
  "tick ar e s =
     (let (voltajeBateria_V, n) = medir ar e s;
          s1 = s\<lparr>ultimoVoltajeMedido_V := voltajeBateria_V\<rparr>
      in
        if voltajeBateria_V < corteVoltaje_V (configuracion s1)
        then (False, s1\<lparr>bloqueadoPorCorte := True\<rparr>, n)
        else
          let s2 = s1\<lparr>bloqueadoPorCorte := False\<rparr>;
              s3 = actualizarNivelConHisteresis ar voltajeBateria_V s2;
              ahoraMs = millis e
          in
            if vencido ahoraMs (msProximoEnvio s3)
            then (True, s3\<lparr>msProximoEnvio := ahoraMs + currentPeriod s3\<rparr>, n)
            else (False, s3, n))"

definition setBatteryVolts :: "real \<Rightarrow> AdaptiveTXWSN \<Rightarrow> AdaptiveTXWSN" where
  "setBatteryVolts voltajeBateria_V s =
     s\<lparr>usarLecturaInyectada := True, voltajeInyectado_V := voltajeBateria_V\<rparr>"

definition level :: "AdaptiveTXWSN \<Rightarrow> Level" where
  "level s = nivelEnergeticoActual s"

definition lastVolts :: "AdaptiveTXWSN \<Rightarrow> real" where
  "lastVolts s = ultimoVoltajeMedido_V s"

definition isCutoff :: "AdaptiveTXWSN \<Rightarrow> bool" where
  "isCutoff s = bloqueadoPorCorte s"

definition setPeriods :: "u32 \<Rightarrow> u32 \<Rightarrow> u32 \<Rightarrow> AdaptiveTXWSN \<Rightarrow> AdaptiveTXWSN" where
  "setPeriods alto_ms medio_ms bajo_ms s =
     s\<lparr>configuracion := (configuracion s)
        \<lparr>periodoAlto_ms := alto_ms, periodoMedio_ms := medio_ms, periodoBajo_ms := bajo_ms\<rparr>\<rparr>"

definition setThresholds :: "real \<Rightarrow> real \<Rightarrow> AdaptiveTXWSN \<Rightarrow> AdaptiveTXWSN" where
  "setThresholds alto_V medio_V s =
     s\<lparr>configuracion := (configuracion s)\<lparr>umbralAlto_V := alto_V, umbralMedio_V := medio_V\<rparr>\<rparr>"

definition setHysteresisPct :: "real \<Rightarrow> AdaptiveTXWSN \<Rightarrow> AdaptiveTXWSN" where
  "setHysteresisPct fraccion s =
     s\<lparr>configuracion := (configuracion s)\<lparr>fraccionHisteresis := fraccion\<rparr>\<rparr>"

subsection \<open>Sequences of calls\<close>

text \<open>
  The public methods that can change the object or touch the hardware, as one call
  each; the getters \<open>level\<close>, \<open>lastVolts\<close>, \<open>isCutoff\<close> and \<open>currentPeriod\<close> are
  \<^verbatim>\<open>const\<close>. \<^verbatim>\<open>readBatteryVolts()\<close> writes no field.
\<close>

datatype Llamada =
  Begin Cfg Entorno
| Tick Entorno
| SetBatteryVolts real
| ReadBatteryVolts Entorno
| SetPeriods u32 u32 u32
| SetThresholds real real
| SetHysteresisPct real

fun llamar :: "Aritmetica \<Rightarrow> Llamada \<Rightarrow> AdaptiveTXWSN \<Rightarrow> AdaptiveTXWSN" where
  "llamar ar (Begin cfg e) s = begin_cfg cfg e s"
| "llamar ar (Tick e) s = fst (snd (tick ar e s))"
| "llamar ar (SetBatteryVolts v) s = setBatteryVolts v s"
| "llamar ar (ReadBatteryVolts e) s = s"
| "llamar ar (SetPeriods a m b) s = setPeriods a m b s"
| "llamar ar (SetThresholds a m) s = setThresholds a m s"
| "llamar ar (SetHysteresisPct f) s = setHysteresisPct f s"

fun ejecutar :: "Aritmetica \<Rightarrow> Llamada list \<Rightarrow> AdaptiveTXWSN \<Rightarrow> AdaptiveTXWSN" where
  "ejecutar ar [] s = s"
| "ejecutar ar (c # cs) s = ejecutar ar cs (llamar ar c s)"

text \<open>The number of \<^verbatim>\<open>analogRead()\<close> calls a call makes.\<close>

fun muestreos :: "Aritmetica \<Rightarrow> Llamada \<Rightarrow> AdaptiveTXWSN \<Rightarrow> nat" where
  "muestreos ar (Tick e) s = snd (snd (tick ar e s))"
| "muestreos ar (ReadBatteryVolts e) s = snd (readBatteryVolts ar e s)"
| "muestreos ar c s = 0"

text \<open>The voltages measured by the cycle calls of a sequence, in order.\<close>

fun voltajesMedidos :: "Aritmetica \<Rightarrow> Llamada list \<Rightarrow> AdaptiveTXWSN \<Rightarrow> real list" where
  "voltajesMedidos ar [] s = []"
| "voltajesMedidos ar (Tick e # cs) s =
     fst (medir ar e s) # voltajesMedidos ar cs (llamar ar (Tick e) s)"
| "voltajesMedidos ar (c # cs) s = voltajesMedidos ar cs (llamar ar c s)"

text \<open>
  A cycle call, or the injection of the voltage for the next one: the calls that
  leave the thresholds alone.
\<close>

fun esCiclo :: "Llamada \<Rightarrow> bool" where
  "esCiclo (Tick e) = True"
| "esCiclo (SetBatteryVolts v) = True"
| "esCiclo c = False"

text \<open>The value of the last injection after the calls \<open>cs\<close>, when it was \<open>v\<close> before.\<close>

fun ultimaInyeccion :: "real \<Rightarrow> Llamada list \<Rightarrow> real" where
  "ultimaInyeccion v [] = v"
| "ultimaInyeccion v (SetBatteryVolts w # cs) = ultimaInyeccion w cs"
| "ultimaInyeccion v (c # cs) = ultimaInyeccion v cs"

text \<open>The three values of \<^verbatim>\<open>enum Level\<close>.\<close>

definition nivelValido :: "Level \<Rightarrow> bool" where
  "nivelValido l = (l = BATT_LOW \<or> l = BATT_MID \<or> l = BATT_HIGH)"

subsection \<open>The specification's transition rules\<close>

text \<open>
  The four thresholds as \<open>actualizarNivelConHisteresis\<close> computes them:
  \<open>threshold \<plusminus> threshold \<times> hysteresisFraction\<close> in float arithmetic.
\<close>

definition umbralBajadaAlto :: "Aritmetica \<Rightarrow> Cfg \<Rightarrow> real" where
  "umbralBajadaAlto ar c =
     fsub ar (umbralAlto_V c) (fmul ar (umbralAlto_V c) (fraccionHisteresis c))"

definition umbralSubidaAlto :: "Aritmetica \<Rightarrow> Cfg \<Rightarrow> real" where
  "umbralSubidaAlto ar c =
     fadd ar (umbralAlto_V c) (fmul ar (umbralAlto_V c) (fraccionHisteresis c))"

definition umbralBajadaMedio :: "Aritmetica \<Rightarrow> Cfg \<Rightarrow> real" where
  "umbralBajadaMedio ar c =
     fsub ar (umbralMedio_V c) (fmul ar (umbralMedio_V c) (fraccionHisteresis c))"

definition umbralSubidaMedio :: "Aritmetica \<Rightarrow> Cfg \<Rightarrow> real" where
  "umbralSubidaMedio ar c =
     fadd ar (umbralMedio_V c) (fmul ar (umbralMedio_V c) (fraccionHisteresis c))"

text \<open>
  The rules of section 4.1 of the specification, in its own words, for given
  thresholds: \<open>bajaAlto\<close> and \<open>subeAlto\<close> around the high threshold, \<open>bajaMedio\<close> and
  \<open>subeMedio\<close> around the mid threshold.
\<close>

definition transicionUmbrales ::
  "real \<Rightarrow> real \<Rightarrow> real \<Rightarrow> real \<Rightarrow> real \<Rightarrow> Level \<Rightarrow> Level" where
  "transicionUmbrales bajaAlto subeAlto bajaMedio subeMedio v l =
     (if l = BATT_HIGH then (if v < bajaAlto then BATT_MID else BATT_HIGH)
      else if l = BATT_MID then
        (if subeAlto \<le> v then BATT_HIGH else if v < bajaMedio then BATT_LOW else BATT_MID)
      else if l = BATT_LOW then (if subeMedio \<le> v then BATT_MID else BATT_LOW)
      else l)"

text \<open>
  The specification's thresholds are the products
  \<open>threshold \<times> (1 \<plusminus> hysteresisFraction)\<close> of real numbers.
\<close>

definition transicionSpec :: "Cfg \<Rightarrow> real \<Rightarrow> Level \<Rightarrow> Level" where
  "transicionSpec c v l =
     transicionUmbrales
       (umbralAlto_V c * (1 - fraccionHisteresis c)) (umbralAlto_V c * (1 + fraccionHisteresis c))
       (umbralMedio_V c * (1 - fraccionHisteresis c))
       (umbralMedio_V c * (1 + fraccionHisteresis c)) v l"

text \<open>The dead-band of a level, as section 8 of the specification uses it.\<close>

definition enBandaMuerta :: "Cfg \<Rightarrow> Level \<Rightarrow> real \<Rightarrow> bool" where
  "enBandaMuerta c l v =
     (if l = BATT_HIGH then umbralAlto_V c * (1 - fraccionHisteresis c) < v
      else if l = BATT_MID then
        umbralMedio_V c * (1 - fraccionHisteresis c) \<le> v \<and>
        v < umbralAlto_V c * (1 + fraccionHisteresis c)
      else if l = BATT_LOW then v < umbralMedio_V c * (1 + fraccionHisteresis c)
      else False)"

text \<open>The same dead-bands between the thresholds that the code computes.\<close>

definition enBandaCodigo :: "Aritmetica \<Rightarrow> Cfg \<Rightarrow> Level \<Rightarrow> real \<Rightarrow> bool" where
  "enBandaCodigo ar c l v =
     (if l = BATT_HIGH then umbralBajadaAlto ar c < v
      else if l = BATT_MID then umbralBajadaMedio ar c \<le> v \<and> v < umbralSubidaAlto ar c
      else if l = BATT_LOW then v < umbralSubidaMedio ar c
      else False)"

text \<open>
  The four threshold computations of \<open>actualizarNivelConHisteresis\<close> incur no rounding
  error for this configuration.
\<close>

definition umbralesExactos :: "Aritmetica \<Rightarrow> Cfg \<Rightarrow> bool" where
  "umbralesExactos ar c =
     (fsub ar (umbralAlto_V c) (fmul ar (umbralAlto_V c) (fraccionHisteresis c))
        = umbralAlto_V c * (1 - fraccionHisteresis c) \<and>
      fadd ar (umbralAlto_V c) (fmul ar (umbralAlto_V c) (fraccionHisteresis c))
        = umbralAlto_V c * (1 + fraccionHisteresis c) \<and>
      fsub ar (umbralMedio_V c) (fmul ar (umbralMedio_V c) (fraccionHisteresis c))
        = umbralMedio_V c * (1 - fraccionHisteresis c) \<and>
      fadd ar (umbralMedio_V c) (fmul ar (umbralMedio_V c) (fraccionHisteresis c))
        = umbralMedio_V c * (1 + fraccionHisteresis c))"

subsection \<open>Concrete objects\<close>

text \<open>
  A configuration whose voltages are binary fractions, so that the float products and
  sums of the threshold computation are exact: thresholds 4 V and 3.5 V, hysteresis
  1/32, cutoff 3.25 V, no ADC pin, the default periods.
\<close>

definition cfgEjemplo :: Cfg where
  "cfgEjemplo =
     \<lparr>pinAdcBateria = - 1, voltajeReferenciaAdc = 5, divisorRArriba_k = 100,
      divisorRAbajo_k = 33, muestrasPromedioAdc = 8, umbralAlto_V = 4,
      umbralMedio_V = 7 / 2, fraccionHisteresis = 1 / 32, periodoAlto_ms = 5000,
      periodoMedio_ms = 15000, periodoBajo_ms = 120000, corteVoltaje_V = 13 / 4\<rparr>"

text \<open>
  The default member initialisers of \<^verbatim>\<open>struct Cfg\<close>; each voltage is the real number that
  the \<^verbatim>\<open>float\<close> literal denotes (\<^verbatim>\<open>3.90f\<close> is \<open>8178893 / 2^21\<close>).
\<close>

definition CfgDefecto :: Cfg where
  "CfgDefecto =
     \<lparr>pinAdcBateria = - 1, voltajeReferenciaAdc = 5, divisorRArriba_k = 100,
      divisorRAbajo_k = 33, muestrasPromedioAdc = 8, umbralAlto_V = 8178893 / 2097152,
      umbralMedio_V = 7549747 / 2097152, fraccionHisteresis = 16106127 / 536870912,
      periodoAlto_ms = 5000, periodoMedio_ms = 15000, periodoBajo_ms = 120000,
      corteVoltaje_V = 7130317 / 2097152\<rparr>"

text \<open>
  An object in static storage before \<^verbatim>\<open>begin()\<close>: the configuration has its defaults,
  the other fields are zero.
\<close>

definition objetoEstatico :: AdaptiveTXWSN where
  "objetoEstatico =
     \<lparr>configuracion = CfgDefecto, nivelEnergeticoActual = 0, msProximoEnvio = 0,
      ultimoVoltajeMedido_V = 0, bloqueadoPorCorte = False, usarLecturaInyectada = False,
      voltajeInyectado_V = 0\<rparr>"

text \<open>The defaults with a hysteresis of \<^verbatim>\<open>0.10f\<close>, as after \<^verbatim>\<open>setHysteresisPct(0.10f)\<close>.\<close>

definition CfgDiez :: Cfg where
  "CfgDiez = CfgDefecto\<lparr>fraccionHisteresis := 13421773 / 134217728\<rparr>"

definition entornoEn :: "u32 \<Rightarrow> Entorno" where
  "entornoEn t = \<lparr>millis = t, analogRead = (\<lambda>i. 0)\<rparr>"

text \<open>After \<^verbatim>\<open>begin(cfgEjemplo)\<close> at time 1000, and after \<^verbatim>\<open>setBatteryVolts(v)\<close> then.\<close>

definition objetoIniciado :: AdaptiveTXWSN where
  "objetoIniciado = begin_cfg cfgEjemplo (entornoEn 1000) objetoEstatico"

definition objetoCon :: "real \<Rightarrow> AdaptiveTXWSN" where
  "objetoCon v = setBatteryVolts v objetoIniciado"

text \<open>
  After \<^verbatim>\<open>begin(cfg)\<close> at time 1000 and \<^verbatim>\<open>setBatteryVolts(v)\<close>, for any configuration.
\<close>

definition objetoDe :: "Cfg \<Rightarrow> real \<Rightarrow> AdaptiveTXWSN" where
  "objetoDe cfg v = setBatteryVolts v (begin_cfg cfg (entornoEn 1000) objetoEstatico)"

text \<open>
  With the hysteresis \<^verbatim>\<open>0.10f\<close>: after \<^verbatim>\<open>begin\<close>, the injection of 3.5 V and one cycle in
  binary32 arithmetic, which takes the level from HIGH to MID.
\<close>

definition objetoMedio :: AdaptiveTXWSN where
  "objetoMedio = llamar binary32 (Tick (entornoEn 1000)) (objetoDe CfgDiez (7 / 2))"

section \<open>Properties\<close>

lemmas Level_defs = BATT_LOW_def BATT_MID_def BATT_HIGH_def

subsection \<open>Frame lemmas\<close>

lemma sint_word_of_int_small:
  "- (2 ^ 31) \<le> k \<Longrightarrow> k < 2 ^ 31 \<Longrightarrow> sint (word_of_int k :: 32 word) = k"
  by (simp add: sint_sbintrunc' signed_take_bit_int_eq_self)

lemma vencido_tiempo_real:
  assumes "\<bar>int tn - int td\<bar> < 2 ^ 31"
  shows "vencido (of_nat tn) (of_nat td) \<longleftrightarrow> td \<le> tn"
proof -
  have "(of_nat tn :: 32 word) - of_nat td = word_of_int (int tn - int td)"
    by simp
  moreover have "- (2 ^ 31) \<le> int tn - int td" "int tn - int td < 2 ^ 31"
    using assms by linarith+
  ultimately have "sint ((of_nat tn :: 32 word) - of_nat td) = int tn - int td"
    by (simp only: sint_word_of_int_small)
  then show ?thesis by (simp add: vencido_def)
qed

lemma actualizar_marco:
  "actualizarNivelConHisteresis ar v s =
     s\<lparr>nivelEnergeticoActual := nivelEnergeticoActual (actualizarNivelConHisteresis ar v s)\<rparr>"
  by (simp add: actualizarNivelConHisteresis_def Let_def)

lemma actualizar_campos [simp]:
  "configuracion (actualizarNivelConHisteresis ar v s) = configuracion s"
  "msProximoEnvio (actualizarNivelConHisteresis ar v s) = msProximoEnvio s"
  "ultimoVoltajeMedido_V (actualizarNivelConHisteresis ar v s) = ultimoVoltajeMedido_V s"
  "bloqueadoPorCorte (actualizarNivelConHisteresis ar v s) = bloqueadoPorCorte s"
  "usarLecturaInyectada (actualizarNivelConHisteresis ar v s) = usarLecturaInyectada s"
  "voltajeInyectado_V (actualizarNivelConHisteresis ar v s) = voltajeInyectado_V s"
  by (simp_all add: actualizarNivelConHisteresis_def Let_def)

lemma actualizar_nivel_marco [simp]:
  "nivelEnergeticoActual (actualizarNivelConHisteresis ar v (s\<lparr>ultimoVoltajeMedido_V := u\<rparr>))
     = nivelEnergeticoActual (actualizarNivelConHisteresis ar v s)"
  "nivelEnergeticoActual (actualizarNivelConHisteresis ar v (s\<lparr>bloqueadoPorCorte := b\<rparr>))
     = nivelEnergeticoActual (actualizarNivelConHisteresis ar v s)"
  by (simp_all add: actualizarNivelConHisteresis_def Let_def)

text \<open>The two paths of \<open>tick\<close>: stopped at the cutoff gate, or through to the timer.\<close>

lemma tick_corte:
  assumes "fst (medir ar e s) < corteVoltaje_V (configuracion s)"
  shows "tick ar e s =
     (False, s\<lparr>ultimoVoltajeMedido_V := fst (medir ar e s), bloqueadoPorCorte := True\<rparr>,
      snd (medir ar e s))"
  using assms by (cases "medir ar e s") (simp add: tick_def Let_def)

lemma tick_sin_corte:
  assumes "\<not> fst (medir ar e s) < corteVoltaje_V (configuracion s)"
  shows "tick ar e s =
     (let s3 = actualizarNivelConHisteresis ar (fst (medir ar e s))
                 (s\<lparr>ultimoVoltajeMedido_V := fst (medir ar e s), bloqueadoPorCorte := False\<rparr>)
      in if vencido (millis e) (msProximoEnvio s)
         then (True, s3\<lparr>msProximoEnvio := millis e + currentPeriod s3\<rparr>, snd (medir ar e s))
         else (False, s3, snd (medir ar e s)))"
  using assms by (cases "medir ar e s") (simp add: tick_def Let_def)

lemma tick_configuracion [simp]: "configuracion (fst (snd (tick ar e s))) = configuracion s"
  by (cases "fst (medir ar e s) < corteVoltaje_V (configuracion s)")
    (simp_all add: tick_corte tick_sin_corte Let_def)

lemma tick_nivel:
  "nivelEnergeticoActual (fst (snd (tick ar e s))) =
     (if fst (medir ar e s) < corteVoltaje_V (configuracion s) then nivelEnergeticoActual s
      else nivelEnergeticoActual (actualizarNivelConHisteresis ar (fst (medir ar e s)) s))"
  by (simp add: tick_corte tick_sin_corte Let_def)

lemma tick_inyeccion [simp]:
  "usarLecturaInyectada (fst (snd (tick ar e s))) = usarLecturaInyectada s"
  "voltajeInyectado_V (fst (snd (tick ar e s))) = voltajeInyectado_V s"
  by (cases "fst (medir ar e s) < corteVoltaje_V (configuracion s)";
      simp add: tick_corte tick_sin_corte Let_def)+

text \<open>Without an injected voltage and with an ADC pin, a cycle does sample the ADC.\<close>

lemma tick_muestrea:
  assumes "\<not> usarLecturaInyectada s" and "0 \<le> sint (pinAdcBateria (configuracion s))"
  shows "snd (snd (tick ar e s)) = unat (max 1 (muestrasPromedioAdc (configuracion s)))"
    and "0 < snd (snd (tick ar e s))"
proof -
  have m: "snd (medir ar e s) = unat (max 1 (muestrasPromedioAdc (configuracion s)))"
    using assms by (simp add: medir_def readBatteryVolts_def Let_def)
  show n: "snd (snd (tick ar e s)) = unat (max 1 (muestrasPromedioAdc (configuracion s)))"
    using m by (cases "fst (medir ar e s) < corteVoltaje_V (configuracion s)")
      (simp_all add: tick_corte tick_sin_corte Let_def)
  have "(1 :: u8) \<le> max 1 (muestrasPromedioAdc (configuracion s))"
    by simp
  then have "unat (1 :: u8) \<le> unat (max 1 (muestrasPromedioAdc (configuracion s)))"
    by (simp only: word_le_nat_alt)
  then show "0 < snd (snd (tick ar e s))"
    by (simp add: n)
qed

lemma medir_marco [simp]:
  "medir ar e (s\<lparr>msProximoEnvio := t\<rparr>) = medir ar e s"
  by (simp add: medir_def readBatteryVolts_def Let_def)

lemma sint_suma_pequena:
  fixes a b :: "32 word"
  assumes "unat a + unat b < 2 ^ 31"
  shows "0 \<le> sint (a + b)"
proof -
  have "a + b = word_of_int (uint a + uint b)"
    by simp
  moreover have "uint a + uint b < 2 ^ 31"
  proof -
    from assms have "int (unat a + unat b) < int (2 ^ 31)"
      by (simp only: of_nat_less_iff)
    then show ?thesis by (simp only: uint_nat) simp
  qed
  moreover have "- (2 ^ 31) \<le> uint a + uint b"
  proof -
    have "(0::int) \<le> uint a + uint b" by simp
    moreover have "- (2 ^ 31) \<le> (0::int)" by simp
    ultimately show ?thesis by (rule order_trans [rotated])
  qed
  ultimately have "sint (a + b) = uint a + uint b"
    by (simp only: sint_word_of_int_small)
  then show ?thesis by simp
qed

lemma llamar_inyeccion:
  "usarLecturaInyectada s \<Longrightarrow> usarLecturaInyectada (llamar ar c s)"
  by (cases c)
    (simp_all add: begin_cfg_def setBatteryVolts_def setPeriods_def setThresholds_def
      setHysteresisPct_def)

lemma ejecutar_inyeccion:
  "usarLecturaInyectada s \<Longrightarrow>
     usarLecturaInyectada (ejecutar ar cs s) \<and>
     voltajeInyectado_V (ejecutar ar cs s) = ultimaInyeccion (voltajeInyectado_V s) cs"
proof (induction cs arbitrary: s)
  case Nil
  then show ?case by simp
next
  case (Cons c cs)
  have u: "usarLecturaInyectada (llamar ar c s)"
    using Cons.prems by (rule llamar_inyeccion)
  have v: "ultimaInyeccion (voltajeInyectado_V (llamar ar c s)) cs
             = ultimaInyeccion (voltajeInyectado_V s) (c # cs)"
    by (cases c)
      (simp_all add: begin_cfg_def setBatteryVolts_def setPeriods_def setThresholds_def
        setHysteresisPct_def)
  show ?case using Cons.IH [OF u] v by simp
qed

lemma actualizar_nivel_casos:
  "nivelEnergeticoActual (actualizarNivelConHisteresis ar v s) = nivelEnergeticoActual s \<or>
   (nivelEnergeticoActual s = BATT_MID \<and>
      (nivelEnergeticoActual (actualizarNivelConHisteresis ar v s) = BATT_LOW \<or>
       nivelEnergeticoActual (actualizarNivelConHisteresis ar v s) = BATT_HIGH)) \<or>
   ((nivelEnergeticoActual s = BATT_LOW \<or> nivelEnergeticoActual s = BATT_HIGH) \<and>
      nivelEnergeticoActual (actualizarNivelConHisteresis ar v s) = BATT_MID)"
  by (simp add: actualizarNivelConHisteresis_def Let_def)

lemma llamar_nivel_valido:
  assumes "nivelValido (nivelEnergeticoActual s)"
  shows "nivelValido (nivelEnergeticoActual (llamar ar c s))"
proof (cases c)
  case (Tick e)
  show ?thesis
    using assms actualizar_nivel_casos [of ar "fst (medir ar e s)" s]
    by (auto simp: Tick tick_nivel nivelValido_def)
qed (use assms in \<open>simp_all add: nivelValido_def begin_cfg_def setBatteryVolts_def setPeriods_def
       setThresholds_def setHysteresisPct_def\<close>)

lemma ejecutar_nivel_valido:
  "nivelValido (nivelEnergeticoActual s) \<Longrightarrow>
     nivelValido (nivelEnergeticoActual (ejecutar ar cs s))"
  by (induction cs arbitrary: s) (simp_all add: llamar_nivel_valido)

lemma llamar_ciclo_configuracion:
  "esCiclo c \<Longrightarrow> configuracion (llamar ar c s) = configuracion s"
  by (cases c) (simp_all add: setBatteryVolts_def)

subsection \<open>The concrete objects, evaluated\<close>

lemma umbralesExactos_exacta: "umbralesExactos exacta c"
  by (simp add: umbralesExactos_def exacta_def algebra_simps)

lemma entornoEn_campos [simp]:
  "millis (entornoEn t) = t"
  "analogRead (entornoEn t) i = 0"
  by (simp_all add: entornoEn_def)

lemma medir_objetoCon: "medir ar e (objetoCon v) = (v, 0)"
  by (simp add: medir_def objetoCon_def setBatteryVolts_def)

lemma objetoCon_campos:
  "configuracion (objetoCon v) = cfgEjemplo"
  "nivelEnergeticoActual (objetoCon v) = BATT_HIGH"
  "msProximoEnvio (objetoCon v) = 1000"
  by (simp_all add: objetoCon_def objetoIniciado_def begin_cfg_def setBatteryVolts_def)

lemma objetoCon_inyeccion:
  "usarLecturaInyectada (objetoCon v)"
  "voltajeInyectado_V (objetoCon v) = v"
  by (simp_all add: objetoCon_def setBatteryVolts_def)

lemma tick_objetoCon_3:
  "tick ar (entornoEn 1000) (objetoCon 3) =
     (False, (objetoCon 3)\<lparr>ultimoVoltajeMedido_V := 3, bloqueadoPorCorte := True\<rparr>, 0)"
  using tick_corte [of ar "entornoEn 1000" "objetoCon 3"]
  by (simp add: medir_objetoCon objetoCon_campos cfgEjemplo_def)

lemma actualizar_objetoCon_4:
  "actualizarNivelConHisteresis exacta 4
     (objetoCon 4\<lparr>ultimoVoltajeMedido_V := 4, bloqueadoPorCorte := False\<rparr>)
    = objetoCon 4\<lparr>ultimoVoltajeMedido_V := 4, bloqueadoPorCorte := False\<rparr>"
  by (simp add: actualizarNivelConHisteresis_def Let_def objetoCon_campos cfgEjemplo_def
      exacta_def)

lemma tick_objetoCon_4:
  "vencido t 1000 \<Longrightarrow> tick exacta (entornoEn t) (objetoCon 4) =
     (True, (objetoCon 4)\<lparr>ultimoVoltajeMedido_V := 4, bloqueadoPorCorte := False,
        msProximoEnvio := t + 5000\<rparr>, 0)"
  using tick_sin_corte [of exacta "entornoEn t" "objetoCon 4"]
  by (simp add: medir_objetoCon objetoCon_campos actualizar_objetoCon_4 currentPeriod_def
      Let_def cfgEjemplo_def)

subsection \<open>The thresholds of the code\<close>

lemma actualizar_umbrales:
  "actualizarNivelConHisteresis ar v s =
     s\<lparr>nivelEnergeticoActual :=
        transicionUmbrales (umbralBajadaAlto ar (configuracion s))
          (umbralSubidaAlto ar (configuracion s)) (umbralBajadaMedio ar (configuracion s))
          (umbralSubidaMedio ar (configuracion s)) v (nivelEnergeticoActual s)\<rparr>"
  by (simp add: actualizarNivelConHisteresis_def transicionUmbrales_def umbralBajadaAlto_def
      umbralSubidaAlto_def umbralBajadaMedio_def umbralSubidaMedio_def Let_def)

lemma umbralesExactos_iff:
  "umbralesExactos ar c \<longleftrightarrow>
     umbralBajadaAlto ar c = umbralAlto_V c * (1 - fraccionHisteresis c) \<and>
     umbralSubidaAlto ar c = umbralAlto_V c * (1 + fraccionHisteresis c) \<and>
     umbralBajadaMedio ar c = umbralMedio_V c * (1 - fraccionHisteresis c) \<and>
     umbralSubidaMedio ar c = umbralMedio_V c * (1 + fraccionHisteresis c)"
  by (simp add: umbralesExactos_def umbralBajadaAlto_def umbralSubidaAlto_def
      umbralBajadaMedio_def umbralSubidaMedio_def)

lemma actualizar_en_banda_codigo:
  assumes "enBandaCodigo ar (configuracion s) (nivelEnergeticoActual s) v"
  shows "nivelEnergeticoActual (actualizarNivelConHisteresis ar v s) = nivelEnergeticoActual s"
  using assms
  by (auto simp: actualizar_umbrales [of ar v s] transicionUmbrales_def enBandaCodigo_def
      split: if_splits)

lemma banda_exacta:
  "umbralesExactos ar c \<Longrightarrow> enBandaCodigo ar c l v = enBandaMuerta c l v"
  by (simp add: umbralesExactos_iff enBandaCodigo_def enBandaMuerta_def)

text \<open>
  The induction behind the no-chatter property: each cycle measures a voltage inside
  the dead-band of the current level, so each classification step keeps the level.
\<close>

lemma ejecutar_en_banda_codigo:
  assumes "\<forall>c \<in> set cs. esCiclo c"
    and "\<forall>v \<in> set (voltajesMedidos ar cs s).
           enBandaCodigo ar (configuracion s) (nivelEnergeticoActual s) v"
  shows "nivelEnergeticoActual (ejecutar ar cs s) = nivelEnergeticoActual s"
  using assms
proof (induction cs arbitrary: s)
  case Nil
  then show ?case by simp
next
  case (Cons c cs)
  have ec: "esCiclo c" using Cons.prems(1) by simp
  have cfg: "configuracion (llamar ar c s) = configuracion s"
    using ec by (rule llamar_ciclo_configuracion)
  have niv: "nivelEnergeticoActual (llamar ar c s) = nivelEnergeticoActual s"
  proof (cases c)
    case (Tick e)
    then have "enBandaCodigo ar (configuracion s) (nivelEnergeticoActual s) (fst (medir ar e s))"
      using Cons.prems(2) by simp
    then show ?thesis
      by (simp add: Tick tick_nivel actualizar_en_banda_codigo)
  next
    case (SetBatteryVolts w)
    then show ?thesis by (simp add: setBatteryVolts_def)
  qed (use ec in simp_all)
  have vs: "set (voltajesMedidos ar cs (llamar ar c s)) \<subseteq> set (voltajesMedidos ar (c # cs) s)"
    by (cases c) auto
  have "nivelEnergeticoActual (ejecutar ar cs (llamar ar c s))
          = nivelEnergeticoActual (llamar ar c s)"
    using Cons.prems vs by (intro Cons.IH) (auto simp: cfg niv)
  then show ?case by (simp add: niv)
qed

subsection \<open>Binary32 arithmetic, evaluated\<close>

lemma exponente_numeral:
  "exponente (numeral k) x =
     (if x < 1 then exponente (pred_numeral k) (2 * x) - 1
      else if 2 \<le> x then exponente (pred_numeral k) (x / 2) + 1
      else 0)"
  by (simp add: numeral_eq_Suc)

lemmas redondear32_eval = redondear32_def exponente_numeral redondeoPar_def Let_def
  power_int_def power_one_over

lemma binary32_defecto_mul:
  "fmul binary32 (8178893 / 2097152) (16106127 / 536870912) = 7851737 / 67108864"
  by (simp add: binary32_def redondear32_eval)

lemma binary32_defecto_sub:
  "fsub binary32 (8178893 / 2097152) (7851737 / 67108864) = 3966763 / 1048576"
  by (simp add: binary32_def redondear32_eval)

lemma binary32_diez_mul:
  "fmul binary32 (8178893 / 2097152) (13421773 / 134217728) = 13086229 / 33554432"
  by (simp add: binary32_def redondear32_eval)

lemma binary32_diez_sub:
  "fsub binary32 (8178893 / 2097152) (13086229 / 33554432) = 14722007 / 4194304"
  by (simp add: binary32_def redondear32_eval)

lemma binary32_diez_add:
  "fadd binary32 (8178893 / 2097152) (13086229 / 33554432) = 4498391 / 1048576"
  by (simp add: binary32_def redondear32_eval)

lemma umbrales_defecto:
  "umbralBajadaAlto binary32 CfgDefecto = 3966763 / 1048576"
  by (simp add: umbralBajadaAlto_def CfgDefecto_def binary32_defecto_mul binary32_defecto_sub)

lemma umbrales_diez:
  "umbralBajadaAlto binary32 CfgDiez = 14722007 / 4194304"
  "umbralSubidaAlto binary32 CfgDiez = 4498391 / 1048576"
  by (simp_all add: umbralBajadaAlto_def umbralSubidaAlto_def CfgDiez_def CfgDefecto_def
      binary32_diez_mul binary32_diez_sub binary32_diez_add)

text \<open>
  The rounding agrees with the \<^verbatim>\<open>float\<close> literals of the source and of the examples, and
  rounds a tie to the even neighbour.
\<close>

lemma redondear32_literales:
  "redondear32 (39 / 10) = 8178893 / 2097152"
  "redondear32 (36 / 10) = 7549747 / 2097152"
  "redondear32 (34 / 10) = 7130317 / 2097152"
  "redondear32 (3 / 100) = 16106127 / 536870912"
  "redondear32 (1 / 10) = 13421773 / 134217728"
  "redondear32 (429 / 100) = 4498391 / 1048576"
  "redondear32 (1 + 1 / 16777216) = 1"
  "redondear32 (1 + 3 / 16777216) = 1 + 4 / 16777216"
  by (simp_all add: redondear32_eval)

lemma objetoDe_campos:
  "configuracion (objetoDe cfg v) = cfg"
  "nivelEnergeticoActual (objetoDe cfg v) = BATT_HIGH"
  "msProximoEnvio (objetoDe cfg v) = 1000"
  "usarLecturaInyectada (objetoDe cfg v)"
  "voltajeInyectado_V (objetoDe cfg v) = v"
  by (simp_all add: objetoDe_def begin_cfg_def setBatteryVolts_def)

lemma medir_objetoDe: "medir ar e (objetoDe cfg v) = (v, 0)"
  by (simp add: medir_def objetoDe_campos)

lemma medir_inyectado: "medir ar e (setBatteryVolts v s) = (v, 0)"
  by (simp add: medir_def setBatteryVolts_def)

lemma setBatteryVolts_campos [simp]:
  "configuracion (setBatteryVolts v s) = configuracion s"
  "nivelEnergeticoActual (setBatteryVolts v s) = nivelEnergeticoActual s"
  by (simp_all add: setBatteryVolts_def)

lemma actualizar_nivel_inyeccion [simp]:
  "nivelEnergeticoActual (actualizarNivelConHisteresis ar v (setBatteryVolts w s))
     = nivelEnergeticoActual (actualizarNivelConHisteresis ar v s)"
  by (simp add: actualizarNivelConHisteresis_def setBatteryVolts_def Let_def)

lemma objetoMedio_campos:
  "configuracion objetoMedio = CfgDiez"
  "nivelEnergeticoActual objetoMedio = BATT_MID"
proof -
  show "configuracion objetoMedio = CfgDiez"
    by (simp add: objetoMedio_def objetoDe_campos)
  have "\<not> (7 / 2 :: real) < corteVoltaje_V CfgDiez"
    by (simp add: CfgDiez_def CfgDefecto_def)
  then show "nivelEnergeticoActual objetoMedio = BATT_MID"
    by (simp add: objetoMedio_def tick_nivel medir_objetoDe objetoDe_campos
        actualizar_umbrales [of binary32] umbrales_diez transicionUmbrales_def)
qed

subsection \<open>The classification step\<close>

text \<open>
  C1. One classification step follows the hysteresis rules of the specification
  (\<open>transicionUmbrales\<close>) with the thresholds that the code computes in float
  arithmetic, for every configuration, voltage and float arithmetic: from HIGH the
  level becomes MID iff \<open>v < highThreshold - highThreshold \<times> hysteresisFraction\<close> and
  otherwise stays; from MID it becomes HIGH iff
  \<open>v \<ge> highThreshold + highThreshold \<times> hysteresisFraction\<close>, else LOW iff
  \<open>v < midThreshold - midThreshold \<times> hysteresisFraction\<close>, else stays; from LOW it becomes
  MID iff \<open>v \<ge> midThreshold + midThreshold \<times> hysteresisFraction\<close> and otherwise stays. The
  step changes no other field. These thresholds are the specification's products
  \<open>threshold \<times> (1 \<plusminus> hysteresisFraction)\<close> when the float operations involved are exact
  (\<open>umbralesExactos\<close>), as they are in exact arithmetic.
\<close>

theorem C1_transicion_histeresis:
  "actualizarNivelConHisteresis ar v s =
     s\<lparr>nivelEnergeticoActual :=
        transicionUmbrales (umbralBajadaAlto ar (configuracion s))
          (umbralSubidaAlto ar (configuracion s)) (umbralBajadaMedio ar (configuracion s))
          (umbralSubidaMedio ar (configuracion s)) v (level s)\<rparr> \<and>
   (umbralesExactos ar (configuracion s) \<longrightarrow>
      actualizarNivelConHisteresis ar v s =
        s\<lparr>nivelEnergeticoActual := transicionSpec (configuracion s) v (level s)\<rparr>) \<and>
   actualizarNivelConHisteresis exacta v s =
     s\<lparr>nivelEnergeticoActual := transicionSpec (configuracion s) v (level s)\<rparr>"
proof -
  have "actualizarNivelConHisteresis a v s =
      s\<lparr>nivelEnergeticoActual := transicionSpec (configuracion s) v (level s)\<rparr>"
    if "umbralesExactos a (configuracion s)" for a
    using that actualizar_umbrales [of a v s]
    by (simp add: transicionSpec_def umbralesExactos_iff level_def)
  then show ?thesis
    using umbralesExactos_exacta actualizar_umbrales [of ar v s] by (auto simp: level_def)
qed

text \<open>
  From HIGH at 3.5 V: below \<open>4 \<times> (1 - 1/32) = 3.875\<close> in exact arithmetic, and below the
  threshold of the default configuration in binary32; the level becomes MID.
\<close>

theorem C1_transicion_histeresis_witness:
  "umbralesExactos exacta (configuracion (objetoCon (7 / 2))) \<and>
   level (objetoCon (7 / 2)) = BATT_HIGH \<and>
   level (actualizarNivelConHisteresis exacta (7 / 2) (objetoCon (7 / 2))) = BATT_MID \<and>
   level (objetoDe CfgDefecto (7 / 2)) = BATT_HIGH \<and>
   level (actualizarNivelConHisteresis binary32 (7 / 2) (objetoDe CfgDefecto (7 / 2))) = BATT_MID"
proof -
  have e: "level (actualizarNivelConHisteresis exacta (7 / 2) (objetoCon (7 / 2))) = BATT_MID"
    using C1_transicion_histeresis
      [of exacta "7 / 2" "objetoCon (7 / 2)", THEN conjunct2, THEN conjunct1]
    by (simp add: umbralesExactos_exacta level_def objetoCon_campos transicionSpec_def
        transicionUmbrales_def cfgEjemplo_def)
  have b: "level (actualizarNivelConHisteresis binary32 (7 / 2) (objetoDe CfgDefecto (7 / 2)))
      = BATT_MID"
    using C1_transicion_histeresis
      [of binary32 "7 / 2" "objetoDe CfgDefecto (7 / 2)", THEN conjunct1]
    by (simp add: level_def objetoDe_campos transicionUmbrales_def umbrales_defecto)
  show ?thesis
    using e b by (simp add: umbralesExactos_exacta level_def objetoCon_campos objetoDe_campos)
qed

text \<open>
  With the products as thresholds C1 fails in binary32: for the default configuration
  the code's threshold \<open>3.90f - 3.90f \<times> 0.03f\<close> is \<open>3966763 / 2^20\<close>, below the product
  \<open>3.90f \<times> (1 - 0.03f)\<close>. At that voltage the rule of the product says MID and the
  code stays HIGH.
\<close>

theorem C1_counterexample:
  "level (objetoDe CfgDefecto 4) = BATT_HIGH \<and>
   3966763 / 1048576
     < umbralAlto_V (configuracion (objetoDe CfgDefecto 4))
         * (1 - fraccionHisteresis (configuracion (objetoDe CfgDefecto 4))) \<and>
   transicionSpec (configuracion (objetoDe CfgDefecto 4)) (3966763 / 1048576)
     (level (objetoDe CfgDefecto 4)) = BATT_MID \<and>
   level (actualizarNivelConHisteresis binary32 (3966763 / 1048576) (objetoDe CfgDefecto 4))
     = BATT_HIGH"
proof -
  have p: "(3966763 / 1048576 :: real) < 8178893 / 2097152 * (1 - 16106127 / 536870912)"
    by simp
  have "level (actualizarNivelConHisteresis binary32 (3966763 / 1048576) (objetoDe CfgDefecto 4))
     = BATT_HIGH"
    by (simp add: actualizar_umbrales [of binary32] objetoDe_campos umbrales_defecto
        transicionUmbrales_def level_def)
  then show ?thesis
    using p
    by (simp add: level_def objetoDe_campos transicionSpec_def transicionUmbrales_def
        CfgDefecto_def)
qed

text \<open>
  C5. No chatter: let \<open>cs\<close> be cycle calls (each possibly preceded by the injection of
  its voltage) whose measured voltages all lie in the dead-band of the level \<open>L\<close> the
  object is in, between the thresholds that the code computes in float arithmetic
  (\<open>enBandaCodigo\<close>): above \<open>highThreshold - highThreshold \<times> hysteresisFraction\<close> for
  HIGH, from \<open>midThreshold - midThreshold \<times> hysteresisFraction\<close> up to, but not
  including, \<open>highThreshold + highThreshold \<times> hysteresisFraction\<close> for MID, below
  \<open>midThreshold + midThreshold \<times> hysteresisFraction\<close> for LOW. Then the level after \<open>cs\<close>
  is still \<open>L\<close>, for every float arithmetic. When the threshold computations are exact
  these bands are the specification's, between the products
  \<open>threshold \<times> (1 \<plusminus> hysteresisFraction)\<close>; then, with a positive hysteresis fraction
  and thresholds \<open>0 < mid \<le> high\<close>, each threshold lies in the dead-bands of both
  levels it separates, so a voltage that stays at a threshold does not change the
  level.
\<close>

theorem C5_sin_rebote:
  assumes "\<forall>c \<in> set cs. esCiclo c"
    and "\<forall>v \<in> set (voltajesMedidos ar cs s). enBandaCodigo ar (configuracion s) (level s) v"
  shows "level (ejecutar ar cs s) = level s \<and>
    (umbralesExactos ar (configuracion s) \<longrightarrow>
       enBandaCodigo ar (configuracion s) l w = enBandaMuerta (configuracion s) l w) \<and>
    (umbralesExactos ar (configuracion s) \<and>
     0 < fraccionHisteresis (configuracion s) \<and> 0 < umbralMedio_V (configuracion s) \<and>
     umbralMedio_V (configuracion s) \<le> umbralAlto_V (configuracion s) \<longrightarrow>
       enBandaCodigo ar (configuracion s) BATT_HIGH (umbralAlto_V (configuracion s)) \<and>
       enBandaCodigo ar (configuracion s) BATT_MID (umbralAlto_V (configuracion s)) \<and>
       enBandaCodigo ar (configuracion s) BATT_MID (umbralMedio_V (configuracion s)) \<and>
       enBandaCodigo ar (configuracion s) BATT_LOW (umbralMedio_V (configuracion s)))"
proof -
  have "BATT_LOW \<noteq> BATT_HIGH" "BATT_LOW \<noteq> BATT_MID" "BATT_MID \<noteq> BATT_HIGH"
    by (simp_all add: Level_defs)
  moreover have "h * (1 - f) < h \<and> m * (1 - f) \<le> h \<and> h < h * (1 + f) \<and>
      m * (1 - f) \<le> m \<and> m < h * (1 + f) \<and> m < m * (1 + f)"
    if "0 < f" "0 < m" "m \<le> h" for f m h :: real
  proof -
    from that have "0 < h" by linarith
    with that have "0 < h * f" "0 < m * f" by simp_all
    with that show ?thesis
      unfolding right_diff_distrib distrib_left mult_1_right by linarith
  qed
  ultimately show ?thesis
    using ejecutar_en_banda_codigo [OF assms(1)] assms(2)
    by (simp add: level_def banda_exacta enBandaMuerta_def)
qed

text \<open>
  In binary32 with the default configuration, from HIGH: the voltage is at the
  threshold \<^verbatim>\<open>3.90f\<close>, then at 4 V, and the level stays HIGH. In exact arithmetic the
  bands are the specification's.
\<close>

theorem C5_sin_rebote_witness:
  "esCiclo (Tick (entornoEn 1000)) \<and> esCiclo (SetBatteryVolts 4) \<and>
   voltajesMedidos binary32
     [Tick (entornoEn 1000), SetBatteryVolts 4, Tick (entornoEn 2000)]
     (objetoDe CfgDefecto (8178893 / 2097152)) = [8178893 / 2097152, 4] \<and>
   enBandaCodigo binary32 CfgDefecto BATT_HIGH (8178893 / 2097152) \<and>
   enBandaCodigo binary32 CfgDefecto BATT_HIGH 4 \<and>
   level (objetoDe CfgDefecto (8178893 / 2097152)) = BATT_HIGH \<and>
   level (ejecutar binary32
     [Tick (entornoEn 1000), SetBatteryVolts 4, Tick (entornoEn 2000)]
     (objetoDe CfgDefecto (8178893 / 2097152))) = BATT_HIGH \<and>
   umbralesExactos exacta cfgEjemplo \<and>
   enBandaCodigo exacta cfgEjemplo BATT_MID 4 \<and> enBandaMuerta cfgEjemplo BATT_MID 4"
proof -
  let ?s = "objetoDe CfgDefecto (8178893 / 2097152)"
  let ?cs = "[Tick (entornoEn 1000), SetBatteryVolts 4, Tick (entornoEn 2000)]"
  have v: "voltajesMedidos binary32 ?cs ?s = [8178893 / 2097152, 4]"
    by (simp add: medir_objetoDe medir_inyectado)
  have b: "enBandaCodigo binary32 CfgDefecto BATT_HIGH (8178893 / 2097152)"
    "enBandaCodigo binary32 CfgDefecto BATT_HIGH 4"
    by (simp_all add: enBandaCodigo_def umbrales_defecto)
  have l: "level ?s = BATT_HIGH" and c: "configuracion ?s = CfgDefecto"
    by (simp_all add: level_def objetoDe_campos)
  have h1: "\<forall>c \<in> set ?cs. esCiclo c"
    by simp
  have h2: "\<forall>v \<in> set (voltajesMedidos binary32 ?cs ?s).
      enBandaCodigo binary32 (configuracion ?s) (level ?s) v"
    using b by (simp only: v l c) simp
  have e1: "\<forall>c \<in> set []. esCiclo c"
    by simp
  have e2: "\<forall>v \<in> set (voltajesMedidos exacta [] (objetoCon 4)).
      enBandaCodigo exacta (configuracion (objetoCon 4)) (level (objetoCon 4)) v"
    by simp
  have m: "enBandaMuerta cfgEjemplo BATT_MID 4"
    by (simp add: enBandaMuerta_def cfgEjemplo_def Level_defs)
  have x: "enBandaCodigo exacta cfgEjemplo BATT_MID 4 \<and> enBandaMuerta cfgEjemplo BATT_MID 4"
    using C5_sin_rebote [OF e1 e2, of BATT_MID 4] m
    by (simp add: umbralesExactos_exacta objetoCon_campos)
  show ?thesis
    using C5_sin_rebote [OF h1 h2] v b l x by (simp add: umbralesExactos_exacta)
qed


text \<open>
  With the specification's bands C5 fails in binary32: with the hysteresis \<^verbatim>\<open>0.10f\<close>
  the code's threshold \<open>3.90f + 3.90f \<times> 0.10f\<close> is \<^verbatim>\<open>4.29f\<close>, below the product
  \<open>3.90f \<times> (1 + 0.10f)\<close>. From MID a cycle at \<^verbatim>\<open>4.29f\<close>, inside the band of the products,
  takes the level to HIGH.
\<close>

theorem C5_counterexample:
  "level objetoMedio = BATT_MID \<and>
   esCiclo (SetBatteryVolts (4498391 / 1048576)) \<and> esCiclo (Tick (entornoEn 2000)) \<and>
   voltajesMedidos binary32
     [SetBatteryVolts (4498391 / 1048576), Tick (entornoEn 2000)] objetoMedio
     = [4498391 / 1048576] \<and>
   enBandaMuerta (configuracion objetoMedio) (level objetoMedio) (4498391 / 1048576) \<and>
   level (ejecutar binary32
     [SetBatteryVolts (4498391 / 1048576), Tick (entornoEn 2000)] objetoMedio) = BATT_HIGH"
proof -
  have b: "enBandaMuerta CfgDiez BATT_MID (4498391 / 1048576)"
    by (simp add: enBandaMuerta_def CfgDiez_def CfgDefecto_def Level_defs)
  have c: "\<not> (4498391 / 1048576 :: real) < corteVoltaje_V CfgDiez"
    by (simp add: CfgDiez_def CfgDefecto_def)
  have d: "BATT_MID \<noteq> BATT_HIGH"
    by (simp add: Level_defs)
  have l: "nivelEnergeticoActual (fst (snd (tick binary32 (entornoEn 2000)
      (setBatteryVolts (4498391 / 1048576) objetoMedio)))) = BATT_HIGH"
    using c d
    by (simp add: tick_nivel medir_inyectado objetoMedio_campos actualizar_umbrales [of binary32]
        umbrales_diez transicionUmbrales_def)
  show ?thesis
    using b l by (simp add: level_def objetoMedio_campos medir_inyectado)
qed

text \<open>
  C6. After \<open>begin\<close> and any calls of public methods the level is LOW, MID or HIGH.
  \<open>begin\<close> is the initialisation and sets the level to HIGH; of the methods called
  afterwards only \<open>tick\<close> changes the level, and only through the classification step,
  which it skips in a cut-off cycle. One classification step keeps the level or moves
  it to an adjacent one: never from LOW to HIGH nor from HIGH to LOW.
\<close>

theorem C6_nivel_adyacente:
  "level (ejecutar ar cs (begin_cfg cfg e0 s0)) \<in> {BATT_LOW, BATT_MID, BATT_HIGH} \<and>
   level (setBatteryVolts v s) = level s \<and>
   level (llamar ar (ReadBatteryVolts e) s) = level s \<and>
   level (setPeriods a m b s) = level s \<and>
   level (setThresholds h l s) = level s \<and>
   level (setHysteresisPct f s) = level s \<and>
   level (fst (snd (tick ar e s))) =
     (if fst (medir ar e s) < corteVoltaje_V (configuracion s) then level s
      else level (actualizarNivelConHisteresis ar (fst (medir ar e s)) s)) \<and>
   (level (actualizarNivelConHisteresis ar u s) = level s \<or>
    level s = BATT_MID \<and> level (actualizarNivelConHisteresis ar u s) \<in> {BATT_LOW, BATT_HIGH} \<or>
    level s \<in> {BATT_LOW, BATT_HIGH} \<and> level (actualizarNivelConHisteresis ar u s) = BATT_MID) \<and>
   (level s = BATT_LOW \<longrightarrow> level (actualizarNivelConHisteresis ar u s) \<noteq> BATT_HIGH) \<and>
   (level s = BATT_HIGH \<longrightarrow> level (actualizarNivelConHisteresis ar u s) \<noteq> BATT_LOW)"
proof -
  have "nivelValido (nivelEnergeticoActual (begin_cfg cfg e0 s0))"
    by (simp add: nivelValido_def begin_cfg_def)
  then have r: "nivelValido (nivelEnergeticoActual (ejecutar ar cs (begin_cfg cfg e0 s0)))"
    by (rule ejecutar_nivel_valido)
  have d: "BATT_LOW \<noteq> BATT_HIGH" "BATT_LOW \<noteq> BATT_MID" "BATT_MID \<noteq> BATT_HIGH"
    by (simp_all add: Level_defs)
  have a: "level (actualizarNivelConHisteresis ar u s) = level s \<or>
    level s = BATT_MID \<and> level (actualizarNivelConHisteresis ar u s) \<in> {BATT_LOW, BATT_HIGH} \<or>
    level s \<in> {BATT_LOW, BATT_HIGH} \<and> level (actualizarNivelConHisteresis ar u s) = BATT_MID"
    using actualizar_nivel_casos [of ar u s] by (auto simp: level_def)
  have n: "level s = BATT_LOW \<longrightarrow> level (actualizarNivelConHisteresis ar u s) \<noteq> BATT_HIGH"
    "level s = BATT_HIGH \<longrightarrow> level (actualizarNivelConHisteresis ar u s) \<noteq> BATT_LOW"
    using a d by auto
  show ?thesis
    using r a n
    by (simp add: nivelValido_def level_def tick_nivel setBatteryVolts_def setPeriods_def
        setThresholds_def setHysteresisPct_def)
qed

text \<open>From LOW, 5 V only reaches MID; from HIGH, 0 V only reaches MID.\<close>

theorem C6_nivel_adyacente_witness:
  "level (ejecutar exacta [Tick (entornoEn 1000)]
      (begin_cfg cfgEjemplo (entornoEn 1000) objetoEstatico)) \<in> {BATT_LOW, BATT_MID, BATT_HIGH} \<and>
   level (objetoCon 5\<lparr>nivelEnergeticoActual := BATT_LOW\<rparr>) = BATT_LOW \<and>
   level (actualizarNivelConHisteresis exacta 5 (objetoCon 5\<lparr>nivelEnergeticoActual := BATT_LOW\<rparr>))
     = BATT_MID \<and>
   level (objetoCon 0) = BATT_HIGH \<and>
   level (actualizarNivelConHisteresis exacta 0 (objetoCon 0)) = BATT_MID"
  using C6_nivel_adyacente [where ar = exacta and cs = "[Tick (entornoEn 1000)]"
      and cfg = cfgEjemplo and ?e0.0 = "entornoEn 1000" and ?s0.0 = objetoEstatico and u = 5
      and s = "objetoCon 5\<lparr>nivelEnergeticoActual := BATT_LOW\<rparr>"]
    C6_nivel_adyacente [where ar = exacta and u = 0 and s = "objetoCon 0"]
  by (simp add: level_def objetoCon_campos actualizarNivelConHisteresis_def Let_def
      cfgEjemplo_def exacta_def Level_defs)

subsection \<open>The cutoff gate\<close>

text \<open>
  C2. After any call of \<open>tick\<close>, \<open>isCutoff\<close> is true iff the voltage measured in that
  call (which is then \<open>lastVolts\<close>) was strictly below \<open>corteVoltaje_V\<close>, whatever
  \<open>isCutoff\<close> was before; and when the measured voltage is below the cutoff the call
  returns false, whatever the level and whether or not the timer was due.
\<close>

theorem C2_corte_recalculado:
  "case tick ar e s of (r, s', n) \<Rightarrow>
     lastVolts s' = fst (medir ar e s) \<and>
     (isCutoff s' \<longleftrightarrow> fst (medir ar e s) < corteVoltaje_V (configuracion s)) \<and>
     (fst (medir ar e s) < corteVoltaje_V (configuracion s) \<longrightarrow> \<not> r)"
proof (cases "fst (medir ar e s) < corteVoltaje_V (configuracion s)")
  case True
  then show ?thesis by (simp add: tick_corte isCutoff_def lastVolts_def)
next
  case False
  then show ?thesis by (simp add: tick_sin_corte Let_def isCutoff_def lastVolts_def)
qed

text \<open>
  At 3 V the cycle is cut off although the timer is due; at 4 V an object whose flag
  was set by an earlier cycle is no longer cut off.
\<close>

theorem C2_corte_recalculado_witness:
  "fst (medir exacta (entornoEn 1000) (objetoCon 3))
     < corteVoltaje_V (configuracion (objetoCon 3)) \<and>
   vencido (millis (entornoEn 1000)) (msProximoEnvio (objetoCon 3)) \<and>
   isCutoff (fst (snd (tick exacta (entornoEn 1000) (objetoCon 3)))) \<and>
   \<not> fst (tick exacta (entornoEn 1000) (objetoCon 3)) \<and>
   isCutoff (objetoCon 4\<lparr>bloqueadoPorCorte := True\<rparr>) \<and>
   \<not> isCutoff (fst (snd (tick exacta (entornoEn 1000)
       (objetoCon 4\<lparr>bloqueadoPorCorte := True\<rparr>))))"
proof -
  have m: "medir exacta (entornoEn 1000) (objetoCon 4\<lparr>bloqueadoPorCorte := True\<rparr>) = (4, 0)"
    by (simp add: medir_def objetoCon_inyeccion)
  show ?thesis
    using C2_corte_recalculado [of exacta "entornoEn 1000" "objetoCon 3"]
      C2_corte_recalculado [of exacta "entornoEn 1000" "objetoCon 4\<lparr>bloqueadoPorCorte := True\<rparr>"]
    by (simp add: tick_objetoCon_3 medir_objetoCon m objetoCon_campos vencido_def cfgEjemplo_def
        isCutoff_def split: prod.splits)
qed

subsection \<open>The timer\<close>

text \<open>
  C3. For a call of \<open>tick\<close> that passes the cutoff gate, with due-time
  \<open>msProximoEnvio s\<close>, current time \<open>millis e\<close> and \<open>P\<close> the period of the level just
  updated by the classification step (HIGH: \<open>periodoAlto_ms\<close>, MID: \<open>periodoMedio_ms\<close>,
  LOW: \<open>periodoBajo_ms\<close>): if the current time has reached or passed the due-time (the
  test \<open>vencido\<close> of the code), the call returns true and the new due-time is
  \<open>millis e + P\<close>; otherwise it returns false and the due-time is unchanged.
\<close>

theorem C3_temporizador:
  assumes "\<not> fst (medir ar e s) < corteVoltaje_V (configuracion s)"
  shows "case tick ar e s of (r, s', n) \<Rightarrow>
     level s' = level (actualizarNivelConHisteresis ar (fst (medir ar e s)) s) \<and>
     currentPeriod s' =
       (if level s' = BATT_HIGH then periodoAlto_ms (configuracion s)
        else if level s' = BATT_MID then periodoMedio_ms (configuracion s)
        else periodoBajo_ms (configuracion s)) \<and>
     (vencido (millis e) (msProximoEnvio s) \<longrightarrow>
        r \<and> msProximoEnvio s' = millis e + currentPeriod s') \<and>
     (\<not> vencido (millis e) (msProximoEnvio s) \<longrightarrow>
        \<not> r \<and> msProximoEnvio s' = msProximoEnvio s)"
  using assms by (simp add: tick_sin_corte Let_def level_def currentPeriod_def)

text \<open>
  Scenario D of the specification: period 5000 ms and due-time 1000; a call at time
  1000 fires and the due-time becomes 6000; a call at time 5999 then does not fire.
\<close>

theorem C3_temporizador_witness:
  "\<not> fst (medir exacta (entornoEn 1000) (objetoCon 4))
       < corteVoltaje_V (configuracion (objetoCon 4)) \<and>
   vencido (millis (entornoEn 1000)) (msProximoEnvio (objetoCon 4)) \<and>
   fst (tick exacta (entornoEn 1000) (objetoCon 4)) \<and>
   msProximoEnvio (fst (snd (tick exacta (entornoEn 1000) (objetoCon 4)))) = 6000 \<and>
   \<not> vencido (millis (entornoEn 5999)) (msProximoEnvio (objetoCon 4\<lparr>msProximoEnvio := 6000\<rparr>)) \<and>
   \<not> fst (tick exacta (entornoEn 5999) (objetoCon 4\<lparr>msProximoEnvio := 6000\<rparr>)) \<and>
   msProximoEnvio (fst (snd (tick exacta (entornoEn 5999) (objetoCon 4\<lparr>msProximoEnvio := 6000\<rparr>))))
     = 6000"
  using C3_temporizador [of exacta "entornoEn 1000" "objetoCon 4"]
    C3_temporizador [of exacta "entornoEn 5999" "objetoCon 4\<lparr>msProximoEnvio := 6000\<rparr>"]
  by (simp add: tick_objetoCon_4 medir_objetoCon objetoCon_campos vencido_def cfgEjemplo_def
      split: prod.splits)

text \<open>
  C4. The due test is the sign of the 32-bit two's-complement reading of
  \<open>now - dueTime\<close> modulo \<open>2^32\<close>. For true times \<open>tn\<close> and \<open>td\<close> in milliseconds (not
  reduced modulo \<open>2^32\<close>) less than \<open>2^31\<close> ms apart, of which the clock and the stored
  due-time hold the residues, the test says exactly whether \<open>tn\<close> has reached or passed
  \<open>td\<close>, and so does the result of a call of \<open>tick\<close> that passes the cutoff gate.
\<close>

theorem C4_desbordamiento_reloj:
  assumes "\<bar>int tn - int td\<bar> < 2 ^ 31"
    and "millis e = of_nat tn" and "msProximoEnvio s = of_nat td"
    and "\<not> fst (medir ar e s) < corteVoltaje_V (configuracion s)"
  shows "(vencido (of_nat tn) (of_nat td) \<longleftrightarrow> td \<le> tn) \<and> (fst (tick ar e s) \<longleftrightarrow> td \<le> tn)"
  using assms vencido_tiempo_real [of tn td] by (simp add: tick_sin_corte Let_def)

text \<open>
  The clock has wrapped (true time \<open>2^32 + 5\<close>, clock 5) and the due-time has not
  (\<open>2^32 - 10\<close>): the transmission is due. The other way round it is not.
\<close>

theorem C4_desbordamiento_reloj_witness:
  "\<bar>int 4294967301 - int 4294967286\<bar> < 2 ^ 31 \<and>
   millis (entornoEn 5) = of_nat 4294967301 \<and>
   msProximoEnvio (objetoCon 4\<lparr>msProximoEnvio := 4294967286\<rparr>) = of_nat 4294967286 \<and>
   \<not> fst (medir exacta (entornoEn 5) (objetoCon 4\<lparr>msProximoEnvio := 4294967286\<rparr>))
       < corteVoltaje_V (configuracion (objetoCon 4\<lparr>msProximoEnvio := 4294967286\<rparr>)) \<and>
   fst (tick exacta (entornoEn 5) (objetoCon 4\<lparr>msProximoEnvio := 4294967286\<rparr>)) \<and>
   \<not> fst (tick exacta (entornoEn 4294967286) (objetoCon 4\<lparr>msProximoEnvio := 5\<rparr>))"
  using C4_desbordamiento_reloj [of 4294967301 4294967286 "entornoEn 5"
      "objetoCon 4\<lparr>msProximoEnvio := 4294967286\<rparr>" exacta]
    C4_desbordamiento_reloj [of 4294967286 4294967301 "entornoEn 4294967286"
      "objetoCon 4\<lparr>msProximoEnvio := 5\<rparr>" exacta]
  by (simp add: medir_objetoCon objetoCon_campos cfgEjemplo_def)

text \<open>
  C7. \<open>tick\<close> writes the due-time exactly when it returns true, which it
  does only when the transmission is due, and then sets it to \<open>millis e + period\<close>; this
  is not earlier than the old due-time in the wraparound order provided the lateness
  \<open>millis e - msProximoEnvio s\<close> plus the period is less than \<open>2^31\<close> ms. No other
  method called after \<open>begin\<close> changes the due-time.
\<close>

theorem C7_proximo_envio_avanza:
  "(case tick ar e s of (r, s', n) \<Rightarrow>
     (r \<longrightarrow> vencido (millis e) (msProximoEnvio s) \<and>
        msProximoEnvio s' = millis e + currentPeriod s' \<and>
        (unat (millis e - msProximoEnvio s) + unat (currentPeriod s') < 2 ^ 31 \<longrightarrow>
           vencido (msProximoEnvio s') (msProximoEnvio s))) \<and>
     (\<not> r \<longrightarrow> msProximoEnvio s' = msProximoEnvio s)) \<and>
   msProximoEnvio (setBatteryVolts v s) = msProximoEnvio s \<and>
   msProximoEnvio (llamar ar (ReadBatteryVolts e) s) = msProximoEnvio s \<and>
   msProximoEnvio (setPeriods a m b s) = msProximoEnvio s \<and>
   msProximoEnvio (setThresholds h l s) = msProximoEnvio s \<and>
   msProximoEnvio (setHysteresisPct f s) = msProximoEnvio s"
proof -
  have o: "unat (x - y) + unat p < 2 ^ 31 \<Longrightarrow> vencido (x + p) y" for x y p :: "32 word"
    using sint_suma_pequena [of "x - y" p] by (simp add: vencido_def algebra_simps)
  have t: "case tick ar e s of (r, s', n) \<Rightarrow>
     (r \<longrightarrow> vencido (millis e) (msProximoEnvio s) \<and>
        msProximoEnvio s' = millis e + currentPeriod s' \<and>
        (unat (millis e - msProximoEnvio s) + unat (currentPeriod s') < 2 ^ 31 \<longrightarrow>
           vencido (msProximoEnvio s') (msProximoEnvio s))) \<and>
     (\<not> r \<longrightarrow> msProximoEnvio s' = msProximoEnvio s)"
  proof (cases "fst (medir ar e s) < corteVoltaje_V (configuracion s)")
    case True
    then show ?thesis by (simp add: tick_corte)
  next
    case False
    then show ?thesis by (simp add: tick_sin_corte Let_def currentPeriod_def o)
  qed
  show ?thesis using t
    by (simp add: setBatteryVolts_def setPeriods_def setThresholds_def setHysteresisPct_def)
qed

theorem C7_proximo_envio_avanza_witness:
  "fst (tick exacta (entornoEn 1000) (objetoCon 4)) \<and>
   unat (millis (entornoEn 1000) - msProximoEnvio (objetoCon 4))
     + unat (currentPeriod (fst (snd (tick exacta (entornoEn 1000) (objetoCon 4))))) < 2 ^ 31 \<and>
   msProximoEnvio (fst (snd (tick exacta (entornoEn 1000) (objetoCon 4)))) = 6000 \<and>
   vencido 6000 (msProximoEnvio (objetoCon 4))"
  using C7_proximo_envio_avanza
    [where ar = exacta and e = "entornoEn 1000" and s = "objetoCon 4"]
  by (simp add: tick_objetoCon_4 objetoCon_campos vencido_def currentPeriod_def cfgEjemplo_def)

text \<open>
  Without the bound on lateness plus period, C7 fails: with the default period of
  5000 ms, a cycle that comes
  \<open>2^31 - 1\<close> ms after the due-time 1000 is due and fires, and the new due-time
  \<open>2147489647\<close> is earlier than the old one in the wraparound order.
\<close>

theorem C7_counterexample:
  "fst (tick exacta (entornoEn 2147484647) (objetoCon 4)) \<and>
   \<not> vencido (msProximoEnvio (fst (snd (tick exacta (entornoEn 2147484647) (objetoCon 4)))))
       (msProximoEnvio (objetoCon 4))"
proof -
  have "vencido 2147484647 1000" by (simp add: vencido_def)
  from tick_objetoCon_4 [OF this] show ?thesis
    by (simp add: objetoCon_campos vencido_def)
qed

subsection \<open>A cycle stopped at the cutoff gate\<close>

text \<open>
  C8. When the measured voltage is below the cutoff, \<open>tick\<close> returns false and writes
  only \<open>ultimoVoltajeMedido_V\<close> and \<open>bloqueadoPorCorte\<close>: the level and the due-time are
  those before the call. So the next cycle that passes the cutoff classifies from the
  level the state machine was last in.
\<close>

theorem C8_corte_sin_efectos:
  assumes "fst (medir ar e s) < corteVoltaje_V (configuracion s)"
  shows "case tick ar e s of (r, s', n) \<Rightarrow>
     \<not> r \<and>
     s' = s\<lparr>ultimoVoltajeMedido_V := fst (medir ar e s), bloqueadoPorCorte := True\<rparr> \<and>
     level s' = level s \<and> msProximoEnvio s' = msProximoEnvio s \<and>
     (\<forall>e'. \<not> fst (medir ar e' s') < corteVoltaje_V (configuracion s') \<longrightarrow>
        level (fst (snd (tick ar e' s'))) =
          level (actualizarNivelConHisteresis ar (fst (medir ar e' s')) s)) \<and>
     (\<forall>e' w. \<not> w < corteVoltaje_V (configuracion s') \<longrightarrow>
        level (fst (snd (tick ar e' (setBatteryVolts w s')))) =
          level (actualizarNivelConHisteresis ar w s))"
proof -
  have i: "medir ar e' (setBatteryVolts w x) = (w, 0)" for e' w x
    by (simp add: medir_def setBatteryVolts_def)
  have c: "configuracion (setBatteryVolts w x) = configuracion x" for w x
    by (simp add: setBatteryVolts_def)
  have l: "nivelEnergeticoActual (actualizarNivelConHisteresis ar w (setBatteryVolts w' x))
      = nivelEnergeticoActual (actualizarNivelConHisteresis ar w x)" for w w' x
    by (simp add: actualizarNivelConHisteresis_def setBatteryVolts_def Let_def)
  show ?thesis
    using assms by (simp add: tick_corte level_def tick_nivel i c l)
qed

text \<open>
  A cut-off cycle at 3 V from HIGH; when 3.5 V is injected afterwards, the next cycle
  classifies from HIGH and reaches MID.
\<close>

theorem C8_corte_sin_efectos_witness:
  "fst (medir exacta (entornoEn 1000) (objetoCon 3))
     < corteVoltaje_V (configuracion (objetoCon 3)) \<and>
   \<not> fst (tick exacta (entornoEn 1000) (objetoCon 3)) \<and>
   level (fst (snd (tick exacta (entornoEn 1000) (objetoCon 3)))) = BATT_HIGH \<and>
   msProximoEnvio (fst (snd (tick exacta (entornoEn 1000) (objetoCon 3)))) = 1000 \<and>
   level (fst (snd (tick exacta (entornoEn 2000)
     (setBatteryVolts (7 / 2) (fst (snd (tick exacta (entornoEn 1000) (objetoCon 3)))))))) = BATT_MID"
proof -
  have "level (actualizarNivelConHisteresis exacta (7 / 2) (objetoCon 3)) = BATT_MID"
    by (simp add: level_def actualizarNivelConHisteresis_def Let_def objetoCon_campos
        cfgEjemplo_def exacta_def Level_defs)
  then show ?thesis
    using C8_corte_sin_efectos [of exacta "entornoEn 1000" "objetoCon 3"]
    by (simp add: tick_objetoCon_3 medir_objetoCon objetoCon_campos cfgEjemplo_def level_def)
qed

subsection \<open>The measurement\<close>

text \<open>
  C9. Without an ADC pin (\<open>pinAdcBateria < 0\<close>) and without an injected voltage,
  \<open>readBatteryVolts\<close> returns the stored last measurement and samples nothing; a call of
  \<open>tick\<close> then leaves \<open>lastVolts\<close> as it was, and gates and classifies with that value.
\<close>

theorem C9_sin_pin_ultimo_voltaje:
  assumes "sint (pinAdcBateria (configuracion s)) < 0" and "\<not> usarLecturaInyectada s"
  shows "readBatteryVolts ar e s = (lastVolts s, 0) \<and>
     (case tick ar e s of (r, s', n) \<Rightarrow>
        n = 0 \<and> lastVolts s' = lastVolts s \<and>
        (isCutoff s' \<longleftrightarrow> lastVolts s < corteVoltaje_V (configuracion s)) \<and>
        (r \<longrightarrow> \<not> lastVolts s < corteVoltaje_V (configuracion s)) \<and>
        (\<not> lastVolts s < corteVoltaje_V (configuracion s) \<longrightarrow>
           level s' = level (actualizarNivelConHisteresis ar (lastVolts s) s)))"
proof -
  have m: "medir ar e s = (ultimoVoltajeMedido_V s, 0)"
    using assms by (simp add: medir_def readBatteryVolts_def)
  show ?thesis
  proof (cases "ultimoVoltajeMedido_V s < corteVoltaje_V (configuracion s)")
    case True
    then show ?thesis using assms m
      by (simp add: tick_corte readBatteryVolts_def lastVolts_def isCutoff_def level_def)
  next
    case False
    then show ?thesis using assms m
      by (simp add: tick_sin_corte readBatteryVolts_def lastVolts_def isCutoff_def level_def
          Let_def)
  qed
qed

text \<open>
  The object of static storage after \<open>begin\<close>: no pin, nothing injected, and the stored
  voltage is still 0 V, so every cycle is cut off.
\<close>

theorem C9_sin_pin_ultimo_voltaje_witness:
  "sint (pinAdcBateria (configuracion objetoIniciado)) < 0 \<and>
   \<not> usarLecturaInyectada objetoIniciado \<and>
   readBatteryVolts exacta (entornoEn 7) objetoIniciado = (0, 0) \<and>
   lastVolts (fst (snd (tick exacta (entornoEn 7) objetoIniciado))) = lastVolts objetoIniciado \<and>
   isCutoff (fst (snd (tick exacta (entornoEn 7) objetoIniciado)))"
  using C9_sin_pin_ultimo_voltaje [of objetoIniciado exacta "entornoEn 7"]
  by (simp add: objetoIniciado_def objetoEstatico_def begin_cfg_def cfgEjemplo_def
      lastVolts_def split: prod.splits)

text \<open>
  C10. After \<open>setBatteryVolts v\<close> and any further calls \<open>cs\<close> of public methods
  (\<open>begin\<close> included), the object still uses the injected reading; a call of \<open>tick\<close> then
  measures the most recently injected value and never calls \<^verbatim>\<open>analogRead()\<close>. No
  public method clears the flag.
\<close>

theorem C10_inyeccion_irreversible:
  "usarLecturaInyectada (ejecutar ar cs (setBatteryVolts v s)) \<and>
   medir ar e (ejecutar ar cs (setBatteryVolts v s)) = (ultimaInyeccion v cs, 0) \<and>
   muestreos ar (Tick e) (ejecutar ar cs (setBatteryVolts v s)) = 0 \<and>
   lastVolts (llamar ar (Tick e) (ejecutar ar cs (setBatteryVolts v s))) = ultimaInyeccion v cs \<and>
   (usarLecturaInyectada s' \<longrightarrow> usarLecturaInyectada (llamar ar c s'))"
proof -
  let ?s = "ejecutar ar cs (setBatteryVolts v s)"
  have "usarLecturaInyectada (setBatteryVolts v s)"
    by (simp add: setBatteryVolts_def)
  from ejecutar_inyeccion [OF this, of ar cs]
  have u: "usarLecturaInyectada ?s" and i: "voltajeInyectado_V ?s = ultimaInyeccion v cs"
    by (simp_all add: setBatteryVolts_def)
  have m: "medir ar e ?s = (ultimaInyeccion v cs, 0)"
    using u i by (simp add: medir_def)
  have n: "snd (snd (tick ar e ?s)) = 0"
    using m by (cases "ultimaInyeccion v cs < corteVoltaje_V (configuracion ?s)")
      (simp_all add: tick_corte tick_sin_corte Let_def)
  have l: "lastVolts (fst (snd (tick ar e ?s))) = ultimaInyeccion v cs"
    using m by (cases "ultimaInyeccion v cs < corteVoltaje_V (configuracion ?s)")
      (simp_all add: tick_corte tick_sin_corte Let_def lastVolts_def)
  show ?thesis using u m n l by (simp add: llamar_inyeccion)
qed

theorem C10_inyeccion_irreversible_witness:
  "usarLecturaInyectada (objetoCon 4) \<and>
   usarLecturaInyectada (llamar exacta (Begin cfgEjemplo (entornoEn 9)) (objetoCon 4)) \<and>
   medir exacta (entornoEn 9)
     (ejecutar exacta [Tick (entornoEn 1000), SetBatteryVolts 3, Begin cfgEjemplo (entornoEn 9)]
        (setBatteryVolts 4 objetoEstatico)) = (3, 0)"
  using C10_inyeccion_irreversible [of exacta
      "[Tick (entornoEn 1000), SetBatteryVolts 3, Begin cfgEjemplo (entornoEn 9)]"
      4 objetoEstatico "entornoEn 9" "objetoCon 4" "Begin cfgEjemplo (entornoEn 9)"]
  by (simp add: objetoCon_def setBatteryVolts_def)


end
